theory Spec2Isabelle
  imports Main
begin

section \<open>Data model of the session store\<close>

text \<open>
  The store is \<^verbatim>\<open>useUserStore\<close> of \<^verbatim>\<open>src/unnamed/part_003\<close> (the version of
  \<^verbatim>\<open>store/authStore.ts\<close> with the authentication actions). Interfaces are records, a
  value of type \<^verbatim>\<open>T | null\<close> or an optional field is an \<open>option\<close>. The field
  \<^verbatim>\<open>id\<close> of a user is \<open>user_id\<close> here, \<open>id\<close> being the identity function of HOL.

  \<^verbatim>\<open>UserRole\<close> and \<^verbatim>\<open>AccountStatus\<close> are imported from \<^verbatim>\<open>../types\<close>, which is not
  among the sources; the store and the guard only ever compare a role with the string
  literals \<^verbatim>\<open>'admin'\<close> and \<^verbatim>\<open>'super_admin'\<close>, so both are strings here, which covers
  every possible declaration of the two types.
\<close>

record LoginCredentials =
  email :: string
  password :: string

record User =
  user_id :: string
  email :: string
  full_name :: string
  role :: string
  account_status :: string
  phone :: "string option"
  company_name :: "string option"
  address :: "string option"
  city :: "string option"
  country :: "string option"
  referral_code :: "string option"
  referred_by :: "string option"
  subscription_status :: "string option"
  created_at :: "string option"
  updated_at :: "string option"

record UserStats =
  total_users :: int
  active_users :: int
  suspended_users :: int
  new_users_today :: int
  new_users_this_week :: int
  new_users_this_month :: int

record AuthResponse =
  access_token :: string
  token_type :: string
  user :: User

record UserStore =
  users :: "User list"
  user :: "User option"
  stats :: "UserStats option"
  loading :: bool
  error :: "string option"
  token :: "string option"
  isAuthenticated :: bool

text \<open>The value caught by \<^verbatim>\<open>catch (err: any)\<close>; the store reads \<^verbatim>\<open>err.message\<close> only.\<close>

record ApiError =
  message :: string

text \<open>
  The external collaborators. Every call of \<^verbatim>\<open>api.post\<close> or \<^verbatim>\<open>api.get\<close> is logged in
  \<open>requests\<close>; what the server answers is an argument of the operation
  (\<open>Inl\<close>: the awaited promise rejects, \<open>Inr\<close>: it resolves with \<^verbatim>\<open>res.data\<close>).
  \<open>localStorage\<close> is the browser storage, \<open>defaults_Authorization\<close> is
  \<^verbatim>\<open>api.defaults.headers.common['Authorization']\<close>.
\<close>

datatype Payload =
  LoginBody LoginCredentials
| RegisterBody string string string "string option"

datatype Request =
  Post string Payload
| Get string "(string \<times> string) list"

record World =
  store :: UserStore
  localStorage :: "string \<rightharpoonup> string"
  defaults_Authorization :: "string option"
  requests :: "Request list"

text \<open>JavaScript truthiness of a \<^verbatim>\<open>string | null\<close>: \<^verbatim>\<open>null\<close> and \<^verbatim>\<open>""\<close> are falsy.\<close>

fun truthy :: "string option \<Rightarrow> bool" where
  "truthy None = False"
| "truthy (Some s) = (s \<noteq> [])"

text \<open>\<^verbatim>\<open>x || null\<close>\<close>

definition or_null :: "string option \<Rightarrow> string option" where
  "or_null x = (if truthy x then x else None)"

text \<open>Optional props of a component: \<^verbatim>\<open>undefined\<close> and \<^verbatim>\<open>false\<close> are falsy.\<close>

fun flag :: "bool option \<Rightarrow> bool" where
  "flag None = False"
| "flag (Some b) = b"

text \<open>\<^verbatim>\<open>u?.role === r\<close>\<close>

fun role_is :: "User option \<Rightarrow> string \<Rightarrow> bool" where
  "role_is None r = False"
| "role_is (Some u) r = (role u = r)"

section \<open>The store: initial state and authentication actions\<close>

text \<open>Lines 110-117: the object passed to \<^verbatim>\<open>create\<close>, read off the storage at start.\<close>

definition initialState :: "(string \<rightharpoonup> string) \<Rightarrow> UserStore" where
  "initialState ls =
     \<lparr>users = [], user = None, stats = None, loading = False, error = None,
      token = or_null (ls ''authToken''),
      isAuthenticated = truthy (ls ''authToken'')\<rparr>"

definition initialWorld :: "(string \<rightharpoonup> string) \<Rightarrow> World" where
  "initialWorld ls =
     \<lparr>store = initialState ls, localStorage = ls,
      defaults_Authorization = None, requests = []\<rparr>"

text \<open>
  An \<^verbatim>\<open>async\<close> action runs in two parts: up to its \<^verbatim>\<open>await\<close> (\<open>_pending\<close>: the first
  \<^verbatim>\<open>set\<close> and the request) and after it (\<open>_settled\<close>: the rest of the \<^verbatim>\<open>try\<close> block or
  the \<^verbatim>\<open>catch\<close> block). The result \<open>Inl err\<close> is the re-thrown error.
\<close>

definition login_pending :: "LoginCredentials \<Rightarrow> World \<Rightarrow> World" where
  "login_pending credentials w =
     w\<lparr>store := (store w)\<lparr>loading := True, error := None\<rparr>,
       requests := requests w @ [Post ''/auth/login'' (LoginBody credentials)]\<rparr>"

definition auth_settled :: "ApiError + AuthResponse \<Rightarrow> World \<Rightarrow> (ApiError + unit) \<times> World" where
  "auth_settled res w =
     (case res of
        Inr data \<Rightarrow>
          (Inr (),
           w\<lparr>localStorage := (localStorage w)(''authToken'' \<mapsto> access_token data),
             store := (store w)\<lparr>user := Some (AuthResponse.user data),
                                 token := Some (access_token data),
                                 isAuthenticated := True, loading := False\<rparr>,
             defaults_Authorization := Some (''Bearer '' @ access_token data)\<rparr>)
      | Inl err \<Rightarrow>
          (Inl err,
           w\<lparr>store := (store w)\<lparr>error := Some (message err), loading := False\<rparr>\<rparr>))"

definition login :: "LoginCredentials \<Rightarrow> ApiError + AuthResponse \<Rightarrow> World \<Rightarrow> (ApiError + unit) \<times> World" where
  "login credentials res w = auth_settled res (login_pending credentials w)"

definition signUp_pending :: "string \<Rightarrow> string \<Rightarrow> string \<Rightarrow> string option \<Rightarrow> World \<Rightarrow> World" where
  "signUp_pending email' password' fullName referralCode w =
     w\<lparr>store := (store w)\<lparr>loading := True, error := None\<rparr>,
       requests := requests w @
         [Post ''/auth/register'' (RegisterBody email' password' fullName referralCode)]\<rparr>"

definition signUp :: "string \<Rightarrow> string \<Rightarrow> string \<Rightarrow> string option \<Rightarrow> ApiError + AuthResponse \<Rightarrow> World
    \<Rightarrow> (ApiError + unit) \<times> World" where
  "signUp email' password' fullName referralCode res w =
     auth_settled res (signUp_pending email' password' fullName referralCode w)"

definition logout :: "World \<Rightarrow> World" where
  "logout w =
     w\<lparr>localStorage := (localStorage w)(''authToken'' := None),
       store := (store w)\<lparr>user := None, token := None, isAuthenticated := False,
                           users := [], stats := None\<rparr>,
       defaults_Authorization := None\<rparr>"

definition checkAuth_pending :: "string \<Rightarrow> World \<Rightarrow> World" where
  "checkAuth_pending t w =
     w\<lparr>store := (store w)\<lparr>loading := True\<rparr>,
       requests := requests w @ [Get ''/auth/me'' [(''Authorization'', ''Bearer '' @ t)]]\<rparr>"

definition checkAuth_settled :: "string \<Rightarrow> ApiError + User \<Rightarrow> World \<Rightarrow> World" where
  "checkAuth_settled t res w =
     (case res of
        Inr data \<Rightarrow>
          w\<lparr>store := (store w)\<lparr>user := Some data, token := Some t,
                                isAuthenticated := True, loading := False\<rparr>,
            defaults_Authorization := Some (''Bearer '' @ t)\<rparr>
      | Inl err \<Rightarrow>
          w\<lparr>localStorage := (localStorage w)(''authToken'' := None),
            store := (store w)\<lparr>user := None, token := None,
                                isAuthenticated := False, loading := False\<rparr>,
            defaults_Authorization := None\<rparr>)"

text \<open>
  \<^verbatim>\<open>checkAuth\<close> never rejects: its \<^verbatim>\<open>catch\<close> block does not re-throw. The branch
  \<^verbatim>\<open>if (token)\<close> is taken for a stored string that is not empty; the other branch has no
  \<^verbatim>\<open>await\<close> and no request.
\<close>

definition checkAuth :: "ApiError + User \<Rightarrow> World \<Rightarrow> World" where
  "checkAuth res w =
     (case localStorage w ''authToken'' of
        None \<Rightarrow> w\<lparr>store := (store w)\<lparr>isAuthenticated := False, loading := False\<rparr>\<rparr>
      | Some t \<Rightarrow>
          if t \<noteq> [] then checkAuth_settled t res (checkAuth_pending t w)
          else w\<lparr>store := (store w)\<lparr>isAuthenticated := False, loading := False\<rparr>\<rparr>)"

definition getIsAdmin :: "UserStore \<Rightarrow> bool" where
  "getIsAdmin s = (role_is (user s) ''admin'' \<or> role_is (user s) ''super_admin'')"

definition getIsSuperAdmin :: "UserStore \<Rightarrow> bool" where
  "getIsSuperAdmin s = role_is (user s) ''super_admin''"

section \<open>The route guards\<close>

text \<open>
  What a component returns: the spinner \<^verbatim>\<open>div\<close>, \<^verbatim>\<open><Navigate to=... replace />\<close>, or the
  fragment around its children. A component is a function of its props and of the store
  state it is rendered against.
\<close>

datatype 'c Element =
  Spinner
| Navigate string bool
| Fragment 'c

record 'c ProtectedRouteProps =
  children :: 'c
  requireAdmin :: "bool option"
  requireSuperAdmin :: "bool option"

text \<open>\<^verbatim>\<open>src/src/components/ProtectedRoute.tsx\<close>, lines 10-37.\<close>

definition ProtectedRoute :: "'c ProtectedRouteProps \<Rightarrow> UserStore \<Rightarrow> 'c Element" where
  "ProtectedRoute props s =
     (if loading s then Spinner
      else if \<not> isAuthenticated s then Navigate ''/login'' True
      else
        let isAdmin = (role_is (user s) ''admin'' \<or> role_is (user s) ''super_admin'');
            isSuperAdmin = role_is (user s) ''super_admin''
        in if flag (requireAdmin props) \<and> \<not> isAdmin then Navigate ''/dashboard'' True
           else if flag (requireSuperAdmin props) \<and> \<not> isSuperAdmin then Navigate ''/dashboard'' True
           else Fragment (children props))"

text \<open>
  The component at the end of \<^verbatim>\<open>src/src/store/authStore.ts\<close>, lines 348-355: its props
  are the children alone and it reads nothing from the store.
\<close>

definition ProtectedRoute_authStore :: "'c \<Rightarrow> UserStore \<Rightarrow> 'c Element" where
  "ProtectedRoute_authStore children' s = Fragment children'"

section \<open>Sequences of operations\<close>

text \<open>
  The operations run one at a time; each action carries what the server answers to it.
  \<open>step\<close> forgets whether the action threw.
\<close>

datatype Action =
  Login LoginCredentials "ApiError + AuthResponse"
| SignUp string string string "string option" "ApiError + AuthResponse"
| Logout
| CheckAuth "ApiError + User"

fun step :: "World \<Rightarrow> Action \<Rightarrow> World" where
  "step w (Login credentials res) = snd (login credentials res w)"
| "step w (SignUp email' password' fullName referralCode res) =
     snd (signUp email' password' fullName referralCode res w)"
| "step w Logout = logout w"
| "step w (CheckAuth res) = checkAuth res w"

definition run :: "Action list \<Rightarrow> World \<Rightarrow> World" where
  "run acts w = foldl step w acts"

text \<open>The invariant of the specification, section 3, as a predicate on the store.\<close>

definition session_consistent :: "UserStore \<Rightarrow> bool" where
  "session_consistent s = (isAuthenticated s = (token s \<noteq> None \<and> user s \<noteq> None))"

text \<open>The server never answers a login or a registration with an empty access token.\<close>

fun token_given :: "Action \<Rightarrow> bool" where
  "token_given (Login credentials (Inr data)) = (access_token data \<noteq> [])"
| "token_given (SignUp email' password' fullName referralCode (Inr data)) = (access_token data \<noteq> [])"
| "token_given a = True"

text \<open>
  Two weaker properties of a state: whoever is authenticated or has a current user has a
  token; and the session is consistent with an authenticated session backed by a
  non-empty stored token.
\<close>

definition token_backed :: "UserStore \<Rightarrow> bool" where
  "token_backed s = ((isAuthenticated s \<or> user s \<noteq> None) \<longrightarrow> token s \<noteq> None)"

definition synced :: "World \<Rightarrow> bool" where
  "synced w = (session_consistent (store w) \<and>
     (isAuthenticated (store w) \<longrightarrow> truthy (localStorage w ''authToken'')))"

text \<open>
  A login or a registration that the server rejects, and the state of a session read off
  a stored token at start: authenticated, with that token, without a current user.
\<close>

fun rejected :: "Action \<Rightarrow> bool" where
  "rejected (Login credentials (Inl err)) = True"
| "rejected (SignUp email' password' fullName referralCode (Inl err)) = True"
| "rejected a = False"

definition hydrated :: "World \<Rightarrow> bool" where
  "hydrated w = (isAuthenticated (store w) \<and> token (store w) = localStorage w ''authToken'' \<and>
     user (store w) = None \<and> truthy (localStorage w ''authToken''))"

section \<open>Sample values\<close>

definition sample_user :: "string \<Rightarrow> User" where
  "sample_user r =
     \<lparr>user_id = ''u1'', email = ''ann@example.org'', full_name = ''Ann'', role = r,
      account_status = ''active'', phone = None, company_name = None, address = None,
      city = None, country = None, referral_code = None, referred_by = None,
      subscription_status = None, created_at = None, updated_at = None\<rparr>"

definition sample_store :: "User option \<Rightarrow> UserStore" where
  "sample_store u =
     \<lparr>users = [], user = u, stats = None, loading = False, error = None,
      token = Some ''tok'', isAuthenticated = True\<rparr>"

definition sample_props :: "bool option \<Rightarrow> bool option \<Rightarrow> nat ProtectedRouteProps" where
  "sample_props a b = \<lparr>children = 7, requireAdmin = a, requireSuperAdmin = b\<rparr>"

definition sample_credentials :: LoginCredentials where
  "sample_credentials = \<lparr>LoginCredentials.email = ''ann@example.org'', password = ''secret''\<rparr>"

definition sample_response :: AuthResponse where
  "sample_response =
     \<lparr>access_token = ''abc'', token_type = ''bearer'', AuthResponse.user = sample_user ''user''\<rparr>"

definition sample_error :: ApiError where
  "sample_error = \<lparr>message = ''Request failed with status code 401''\<rparr>"

definition sample_stats :: UserStats where
  "sample_stats =
     \<lparr>total_users = 3, active_users = 2, suspended_users = 1, new_users_today = 0,
      new_users_this_week = 1, new_users_this_month = 2\<rparr>"

text \<open>A browser storage that remembers the token \<^verbatim>\<open>abc\<close> and one unrelated key.\<close>

definition sample_storage :: "string \<rightharpoonup> string" where
  "sample_storage = [''authToken'' \<mapsto> ''abc'', ''theme'' \<mapsto> ''dark'']"

text \<open>An administrator's session with a cached user list, statistics and an old error.\<close>

definition sample_world :: World where
  "sample_world =
     \<lparr>store = \<lparr>users = [sample_user ''user''], user = Some (sample_user ''admin''),
               stats = Some sample_stats, loading = False, error = Some ''Network Error'',
               token = Some ''abc'', isAuthenticated = True\<rparr>,
      localStorage = sample_storage,
      defaults_Authorization = Some ''Bearer abc'',
      requests = []\<rparr>"

text \<open>A failed login, a successful one, and a check of the token it stored.\<close>

definition sample_actions :: "Action list" where
  "sample_actions =
     [Login sample_credentials (Inl sample_error),
      Login sample_credentials (Inr sample_response),
      CheckAuth (Inr (sample_user ''user''))]"


lemmas action_defs =
  login_def login_pending_def signUp_def signUp_pending_def auth_settled_def logout_def
  checkAuth_def checkAuth_pending_def checkAuth_settled_def

lemmas sample_simps =
  getIsAdmin_def getIsSuperAdmin_def sample_store_def sample_user_def sample_props_def

section \<open>Role predicates\<close>

lemma getIsAdmin_role:
  "getIsAdmin s = (map_option role (user s) = Some ''admin'' \<or> map_option role (user s) = Some ''super_admin'')"
  by (cases "user s") (simp_all add: getIsAdmin_def)

lemma getIsSuperAdmin_role:
  "getIsSuperAdmin s = (map_option role (user s) = Some ''super_admin'')"
  by (cases "user s") (simp_all add: getIsSuperAdmin_def)

text \<open>
  Claim C10. \<^verbatim>\<open>getIsAdmin\<close> and \<^verbatim>\<open>getIsSuperAdmin\<close> depend on nothing but the role of
  the current user (two stores whose users have the same role, or both no user, give the
  same answers). Role \<^verbatim>\<open>admin\<close> satisfies the first and not the second, role
  \<^verbatim>\<open>super_admin\<close> satisfies both, role \<^verbatim>\<open>user\<close> satisfies neither, and without a current
  user both are false. So the super-admin check implies the admin check, as the ordering
  user < admin < super_admin asks.
\<close>

theorem role_predicates:
  "(user s = Some u \<and> role u = ''admin'' \<longrightarrow> getIsAdmin s \<and> \<not> getIsSuperAdmin s) \<and>
   (user s = Some u \<and> role u = ''super_admin'' \<longrightarrow> getIsAdmin s \<and> getIsSuperAdmin s) \<and>
   (user s = Some u \<and> role u = ''user'' \<longrightarrow> \<not> getIsAdmin s \<and> \<not> getIsSuperAdmin s) \<and>
   (user s = None \<longrightarrow> \<not> getIsAdmin s \<and> \<not> getIsSuperAdmin s) \<and>
   (getIsSuperAdmin s \<longrightarrow> getIsAdmin s) \<and>
   (map_option role (user s) = map_option role (user s') \<longrightarrow>
      getIsAdmin s = getIsAdmin s' \<and> getIsSuperAdmin s = getIsSuperAdmin s')"
  by (simp add: getIsAdmin_role getIsSuperAdmin_role)

theorem role_predicates_witness:
  "(getIsAdmin (sample_store (Some (sample_user ''admin''))) \<and>
    \<not> getIsSuperAdmin (sample_store (Some (sample_user ''admin'')))) \<and>
   (getIsAdmin (sample_store (Some (sample_user ''super_admin''))) \<and>
    getIsSuperAdmin (sample_store (Some (sample_user ''super_admin'')))) \<and>
   (\<not> getIsAdmin (sample_store (Some (sample_user ''user''))) \<and>
    \<not> getIsSuperAdmin (sample_store (Some (sample_user ''user'')))) \<and>
   (\<not> getIsAdmin (sample_store None) \<and> \<not> getIsSuperAdmin (sample_store None)) \<and>
   (getIsAdmin (sample_store (Some (sample_user ''admin''))) =
    getIsAdmin ((sample_store (Some (sample_user ''admin'')))\<lparr>loading := True, token := None\<rparr>))"
proof -
  have a: "user (sample_store (Some (sample_user ''admin''))) = Some (sample_user ''admin'')
      \<and> role (sample_user ''admin'') = ''admin''"
    by (simp add: sample_store_def sample_user_def)
  have b: "user (sample_store (Some (sample_user ''super_admin''))) = Some (sample_user ''super_admin'')
      \<and> role (sample_user ''super_admin'') = ''super_admin''"
    by (simp add: sample_store_def sample_user_def)
  have c: "user (sample_store (Some (sample_user ''user''))) = Some (sample_user ''user'')
      \<and> role (sample_user ''user'') = ''user''"
    by (simp add: sample_store_def sample_user_def)
  have d: "user (sample_store None) = None"
    by (simp add: sample_store_def)
  have e: "map_option role (user (sample_store (Some (sample_user ''admin'')))) =
      map_option role (user ((sample_store (Some (sample_user ''admin'')))\<lparr>loading := True, token := None\<rparr>))"
    by simp
  from a b c d e show ?thesis
    using role_predicates [of "sample_store (Some (sample_user ''admin''))" "sample_user ''admin''"
        "(sample_store (Some (sample_user ''admin'')))\<lparr>loading := True, token := None\<rparr>"]
      role_predicates [of "sample_store (Some (sample_user ''super_admin''))" "sample_user ''super_admin''"]
      role_predicates [of "sample_store (Some (sample_user ''user''))" "sample_user ''user''"]
      role_predicates [of "sample_store None"]
    by blast
qed

section \<open>The route guard of the components directory\<close>

text \<open>
  Claim C2. \<^verbatim>\<open>ProtectedRoute\<close> of \<^verbatim>\<open>components/ProtectedRoute.tsx\<close> decides in this
  order, whatever the props (no flag: authentication only; \<^verbatim>\<open>requireAdmin\<close>;
  \<^verbatim>\<open>requireSuperAdmin\<close>; or both): while the store is loading it returns the spinner and
  no navigation; otherwise, if the session is not authenticated, it navigates to
  \<^verbatim>\<open>/login\<close>; otherwise, if an admin or super-admin requirement is set and unmet, it
  navigates to \<^verbatim>\<open>/dashboard\<close>; otherwise it returns its children unchanged. The role
  requirement plays no part for a loading or unauthenticated session: there the result is
  the same for every choice of the two flags and every current user.
\<close>

theorem ProtectedRoute_order:
  "(loading s \<longrightarrow> ProtectedRoute props s = Spinner) \<and>
   (\<not> loading s \<and> \<not> isAuthenticated s \<longrightarrow> ProtectedRoute props s = Navigate ''/login'' True) \<and>
   (\<not> loading s \<and> isAuthenticated s \<and>
      (flag (requireAdmin props) \<and> \<not> getIsAdmin s \<or>
       flag (requireSuperAdmin props) \<and> \<not> getIsSuperAdmin s) \<longrightarrow>
      ProtectedRoute props s = Navigate ''/dashboard'' True) \<and>
   (\<not> loading s \<and> isAuthenticated s \<and>
      (flag (requireAdmin props) \<longrightarrow> getIsAdmin s) \<and>
      (flag (requireSuperAdmin props) \<longrightarrow> getIsSuperAdmin s) \<longrightarrow>
      ProtectedRoute props s = Fragment (children props)) \<and>
   (loading s \<or> \<not> isAuthenticated s \<longrightarrow>
      ProtectedRoute (props\<lparr>requireAdmin := a, requireSuperAdmin := b\<rparr>) (s\<lparr>user := u\<rparr>) =
      ProtectedRoute props s)"
  by (auto simp add: ProtectedRoute_def getIsAdmin_def getIsSuperAdmin_def Let_def)

theorem ProtectedRoute_order_witness:
  "ProtectedRoute (sample_props (Some True) None) ((sample_store None)\<lparr>loading := True\<rparr>) = Spinner \<and>
   ProtectedRoute (sample_props (Some True) None) ((sample_store None)\<lparr>isAuthenticated := False\<rparr>)
     = Navigate ''/login'' True \<and>
   ProtectedRoute (sample_props (Some True) None) (sample_store (Some (sample_user ''user'')))
     = Navigate ''/dashboard'' True \<and>
   ProtectedRoute (sample_props None (Some True)) (sample_store (Some (sample_user ''admin'')))
     = Navigate ''/dashboard'' True \<and>
   ProtectedRoute (sample_props (Some True) (Some True)) (sample_store (Some (sample_user ''super_admin'')))
     = Fragment 7 \<and>
   ProtectedRoute (sample_props None None) (sample_store None) = Fragment 7 \<and>
   ProtectedRoute (sample_props (Some True) (Some True)) ((sample_store None)\<lparr>isAuthenticated := False\<rparr>)
     = ProtectedRoute (sample_props None None)
         ((sample_store (Some (sample_user ''user'')))\<lparr>isAuthenticated := False\<rparr>)"
proof -
  have 1: "ProtectedRoute (sample_props (Some True) None) ((sample_store None)\<lparr>loading := True\<rparr>) = Spinner"
    using ProtectedRoute_order [of "(sample_store None)\<lparr>loading := True\<rparr>" "sample_props (Some True) None"]
    by simp
  have 2: "ProtectedRoute (sample_props (Some True) None) ((sample_store None)\<lparr>isAuthenticated := False\<rparr>)
     = Navigate ''/login'' True"
    using ProtectedRoute_order [of "(sample_store None)\<lparr>isAuthenticated := False\<rparr>" "sample_props (Some True) None"]
    by (simp add: sample_store_def)
  have 3: "ProtectedRoute (sample_props (Some True) None) (sample_store (Some (sample_user ''user'')))
     = Navigate ''/dashboard'' True"
    using ProtectedRoute_order [of "sample_store (Some (sample_user ''user''))" "sample_props (Some True) None"]
    by (simp add: sample_simps)
  have 4: "ProtectedRoute (sample_props None (Some True)) (sample_store (Some (sample_user ''admin'')))
     = Navigate ''/dashboard'' True"
    using ProtectedRoute_order [of "sample_store (Some (sample_user ''admin''))" "sample_props None (Some True)"]
    by (simp add: sample_simps)
  have 5: "ProtectedRoute (sample_props (Some True) (Some True)) (sample_store (Some (sample_user ''super_admin'')))
     = Fragment 7"
    using ProtectedRoute_order [of "sample_store (Some (sample_user ''super_admin''))" "sample_props (Some True) (Some True)"]
    by (simp add: sample_simps)
  have 6: "ProtectedRoute (sample_props None None) (sample_store None) = Fragment 7"
    using ProtectedRoute_order [of "sample_store None" "sample_props None None"]
    by (simp add: sample_simps)
  have 7: "ProtectedRoute (sample_props (Some True) (Some True)) ((sample_store None)\<lparr>isAuthenticated := False\<rparr>)
     = ProtectedRoute (sample_props None None)
         ((sample_store (Some (sample_user ''user'')))\<lparr>isAuthenticated := False\<rparr>)"
    using ProtectedRoute_order [of "(sample_store (Some (sample_user ''user'')))\<lparr>isAuthenticated := False\<rparr>"
        "sample_props None None" "Some True" "Some True" None]
    by (simp add: sample_store_def sample_props_def)
  from 1 2 3 4 5 6 7 show ?thesis by (intro conjI)
qed

section \<open>The route guard at the end of the store file\<close>

text \<open>
  Claim C3. The \<^verbatim>\<open>ProtectedRoute\<close> defined at the end of \<^verbatim>\<open>store/authStore.ts\<close> returns
  its children whatever the session is: its result is the same for any two store states,
  so it restricts nothing. The guard of \<^verbatim>\<open>components/ProtectedRoute.tsx\<close> is different:
  on the empty session of a browser without a stored token it navigates to \<^verbatim>\<open>/login\<close>.
\<close>

theorem ProtectedRoute_authStore_allows_everything:
  "ProtectedRoute_authStore c s1 = ProtectedRoute_authStore c s2 \<and>
   ProtectedRoute_authStore c s1 = Fragment c \<and>
   ProtectedRoute \<lparr>children = c, requireAdmin = None, requireSuperAdmin = None\<rparr>
     (initialState Map.empty) = Navigate ''/login'' True"
  by (simp add: ProtectedRoute_authStore_def ProtectedRoute_def initialState_def)

section \<open>Logout\<close>

text \<open>
  Claim C4. From any state, after \<^verbatim>\<open>logout\<close> the session is not authenticated, token and
  current user are absent and the stored \<^verbatim>\<open>authToken\<close> is removed. \<^verbatim>\<open>logout\<close> cannot
  fail (it is a total function without an error result) and sends no request: the log of
  requests is the one from before.
\<close>

theorem logout_clears_session:
  "isAuthenticated (store (logout w)) = False \<and>
   token (store (logout w)) = None \<and>
   user (store (logout w)) = None \<and>
   localStorage (logout w) ''authToken'' = None \<and>
   requests (logout w) = requests w"
  by (simp add: logout_def)

section \<open>A failed login\<close>

text \<open>
  Claim C5. When the request of \<^verbatim>\<open>login\<close> is rejected, the \<^verbatim>\<open>catch\<close> block writes
  \<^verbatim>\<open>error\<close> and \<^verbatim>\<open>loading\<close> and nothing else: current user, token and
  \<^verbatim>\<open>isAuthenticated\<close> are not set (they, the storage and the default header keep their
  values), so a session that was unauthenticated is left unauthenticated; \<^verbatim>\<open>error\<close> holds
  the message of the failure; the failure is thrown again to the caller; and exactly one
  request was sent, so nothing is retried.
\<close>

theorem login_failure:
  "fst (login credentials (Inl err) w) = Inl err \<and>
   error (store (snd (login credentials (Inl err) w))) = Some (message err) \<and>
   loading (store (snd (login credentials (Inl err) w))) = False \<and>
   user (store (snd (login credentials (Inl err) w))) = user (store w) \<and>
   token (store (snd (login credentials (Inl err) w))) = token (store w) \<and>
   isAuthenticated (store (snd (login credentials (Inl err) w))) = isAuthenticated (store w) \<and>
   localStorage (snd (login credentials (Inl err) w)) = localStorage w \<and>
   defaults_Authorization (snd (login credentials (Inl err) w)) = defaults_Authorization w \<and>
   requests (snd (login credentials (Inl err) w)) =
     requests w @ [Post ''/auth/login'' (LoginBody credentials)] \<and>
   (\<not> isAuthenticated (store w) \<and> user (store w) = None \<and> token (store w) = None \<longrightarrow>
      \<not> isAuthenticated (store (snd (login credentials (Inl err) w))) \<and>
      user (store (snd (login credentials (Inl err) w))) = None \<and>
      token (store (snd (login credentials (Inl err) w))) = None)"
  by (simp add: login_def login_pending_def auth_settled_def)

theorem login_failure_witness:
  "fst (login sample_credentials (Inl sample_error) (initialWorld Map.empty)) = Inl sample_error \<and>
   error (store (snd (login sample_credentials (Inl sample_error) (initialWorld Map.empty))))
     = Some ''Request failed with status code 401'' \<and>
   \<not> isAuthenticated (store (snd (login sample_credentials (Inl sample_error) (initialWorld Map.empty)))) \<and>
   user (store (snd (login sample_credentials (Inl sample_error) (initialWorld Map.empty)))) = None \<and>
   token (store (snd (login sample_credentials (Inl sample_error) (initialWorld Map.empty)))) = None \<and>
   requests (snd (login sample_credentials (Inl sample_error) (initialWorld Map.empty)))
     = [Post ''/auth/login'' (LoginBody sample_credentials)]"
  using login_failure [of sample_credentials sample_error "initialWorld Map.empty"]
  by (simp add: initialWorld_def initialState_def or_null_def sample_error_def)

section \<open>Checking a stored token\<close>

text \<open>
  Claim C6. When \<^verbatim>\<open>checkAuth\<close> finds a stored token and \<^verbatim>\<open>/auth/me\<close> rejects it, the
  stored token is removed, current user and token are absent, \<^verbatim>\<open>isAuthenticated\<close> and
  \<^verbatim>\<open>loading\<close> are false, and \<^verbatim>\<open>error\<close> is not written: it is what it was before the
  check. \<^verbatim>\<open>checkAuth\<close> itself has no error result.
\<close>

theorem checkAuth_rejected:
  assumes "localStorage w ''authToken'' = Some t" and "t \<noteq> []"
  shows "localStorage (checkAuth (Inl err) w) ''authToken'' = None \<and>
   user (store (checkAuth (Inl err) w)) = None \<and>
   token (store (checkAuth (Inl err) w)) = None \<and>
   isAuthenticated (store (checkAuth (Inl err) w)) = False \<and>
   loading (store (checkAuth (Inl err) w)) = False \<and>
   error (store (checkAuth (Inl err) w)) = error (store w) \<and>
   requests (checkAuth (Inl err) w) =
     requests w @ [Get ''/auth/me'' [(''Authorization'', ''Bearer '' @ t)]]"
  using assms by (simp add: checkAuth_def checkAuth_pending_def checkAuth_settled_def)

theorem checkAuth_rejected_witness:
  "localStorage (checkAuth (Inl sample_error) (initialWorld sample_storage)) ''authToken'' = None \<and>
   user (store (checkAuth (Inl sample_error) (initialWorld sample_storage))) = None \<and>
   token (store (checkAuth (Inl sample_error) (initialWorld sample_storage))) = None \<and>
   isAuthenticated (store (checkAuth (Inl sample_error) (initialWorld sample_storage))) = False \<and>
   loading (store (checkAuth (Inl sample_error) (initialWorld sample_storage))) = False \<and>
   error (store (checkAuth (Inl sample_error) (initialWorld sample_storage))) = None \<and>
   requests (checkAuth (Inl sample_error) (initialWorld sample_storage)) =
     [Get ''/auth/me'' [(''Authorization'', ''Bearer abc'')]]"
proof -
  have h: "localStorage (initialWorld sample_storage) ''authToken'' = Some ''abc''" "''abc'' \<noteq> []"
    by (simp_all add: initialWorld_def sample_storage_def)
  show ?thesis
    using checkAuth_rejected [OF h, of sample_error]
    by (simp add: initialWorld_def initialState_def)
qed

text \<open>
  Claim C7. When the storage holds no token (none, or the empty string, which
  \<^verbatim>\<open>if (token)\<close> treats alike), \<^verbatim>\<open>checkAuth\<close> sets \<^verbatim>\<open>isAuthenticated\<close> and
  \<^verbatim>\<open>loading\<close> to false, sends no request, and leaves current user, token and the
  storage as they were.
\<close>

theorem checkAuth_without_token:
  assumes "\<not> truthy (localStorage w ''authToken'')"
  shows "isAuthenticated (store (checkAuth res w)) = False \<and>
   loading (store (checkAuth res w)) = False \<and>
   requests (checkAuth res w) = requests w \<and>
   user (store (checkAuth res w)) = user (store w) \<and>
   token (store (checkAuth res w)) = token (store w) \<and>
   localStorage (checkAuth res w) = localStorage w"
  using assms by (cases "localStorage w ''authToken''") (simp_all add: checkAuth_def)

theorem checkAuth_without_token_witness:
  "isAuthenticated (store (checkAuth (Inr (sample_user ''admin'')) (initialWorld Map.empty))) = False \<and>
   loading (store (checkAuth (Inr (sample_user ''admin'')) (initialWorld Map.empty))) = False \<and>
   requests (checkAuth (Inr (sample_user ''admin'')) (initialWorld Map.empty)) = [] \<and>
   user (store (checkAuth (Inr (sample_user ''admin'')) (initialWorld Map.empty))) = None \<and>
   token (store (checkAuth (Inr (sample_user ''admin'')) (initialWorld Map.empty))) = None \<and>
   localStorage (checkAuth (Inr (sample_user ''admin'')) (initialWorld Map.empty)) = Map.empty"
proof -
  have h: "\<not> truthy (localStorage (initialWorld Map.empty) ''authToken'')"
    by (simp add: initialWorld_def)
  show ?thesis
    using checkAuth_without_token [OF h, of "Inr (sample_user ''admin'')"]
    by (simp add: initialWorld_def initialState_def or_null_def)
qed

section \<open>Clearing the last error\<close>



section \<open>What the operations leave alone\<close>

text \<open>
  Counterexample to claim C9 as stated: in an administrator's session with a cached user
  list and statistics, \<^verbatim>\<open>logout\<close> does not leave \<^verbatim>\<open>users\<close> and \<^verbatim>\<open>stats\<close> unchanged.
\<close>

theorem logout_changes_users_and_stats:
  "\<not> (users (store (logout sample_world)) = users (store sample_world) \<and>
      stats (store (logout sample_world)) = stats (store sample_world))"
  by (simp add: logout_def sample_world_def)

text \<open>
  Claim C9, amended. \<^verbatim>\<open>login\<close>, \<^verbatim>\<open>signUp\<close> and \<^verbatim>\<open>checkAuth\<close> leave the cached user
  list and the statistics unchanged. \<^verbatim>\<open>logout\<close> resets them: afterwards \<^verbatim>\<open>users\<close> is
  empty and \<^verbatim>\<open>stats\<close> absent; it keeps \<^verbatim>\<open>loading\<close> and \<^verbatim>\<open>error\<close>, sends no
  request and deletes the default \<^verbatim>\<open>Authorization\<close> header of the HTTP client, which a
  successful login sets to the bearer token. None of the four operations touches a
  storage key other than \<^verbatim>\<open>authToken\<close>.
\<close>

theorem session_operations_frame:
  "users (store (snd (login credentials res w))) = users (store w) \<and>
   stats (store (snd (login credentials res w))) = stats (store w) \<and>
   users (store (snd (signUp email' password' fullName referralCode res w))) = users (store w) \<and>
   stats (store (snd (signUp email' password' fullName referralCode res w))) = stats (store w) \<and>
   users (store (checkAuth res' w)) = users (store w) \<and>
   stats (store (checkAuth res' w)) = stats (store w) \<and>
   users (store (logout w)) = [] \<and>
   stats (store (logout w)) = None \<and>
   loading (store (logout w)) = loading (store w) \<and>
   error (store (logout w)) = error (store w) \<and>
   requests (logout w) = requests w \<and>
   defaults_Authorization (logout w) = None \<and>
   defaults_Authorization (snd (login credentials (Inr data) w)) = Some (''Bearer '' @ access_token data) \<and>
   (k \<noteq> ''authToken'' \<longrightarrow>
      localStorage (snd (login credentials res w)) k = localStorage w k \<and>
      localStorage (snd (signUp email' password' fullName referralCode res w)) k = localStorage w k \<and>
      localStorage (checkAuth res' w) k = localStorage w k \<and>
      localStorage (logout w) k = localStorage w k)"
  by (simp add: action_defs split: sum.split option.split)

theorem session_operations_frame_witness:
  "users (store (snd (login sample_credentials (Inr sample_response) sample_world))) = [sample_user ''user''] \<and>
   stats (store (checkAuth (Inl sample_error) sample_world)) = Some sample_stats \<and>
   users (store (logout sample_world)) = [] \<and>
   stats (store (logout sample_world)) = None \<and>
   localStorage (snd (login sample_credentials (Inr sample_response) sample_world)) ''theme'' = Some ''dark'' \<and>
   localStorage (checkAuth (Inl sample_error) sample_world) ''theme'' = Some ''dark'' \<and>
   localStorage (logout sample_world) ''theme'' = Some ''dark''"
proof -
  have h: "''theme'' \<noteq> ''authToken''" by simp
  show ?thesis
    using h session_operations_frame [where credentials = sample_credentials
        and res = "Inr sample_response" and w = sample_world and res' = "Inl sample_error"
        and k = "''theme''"]
    by (simp add: sample_world_def sample_storage_def)
qed

section \<open>The session invariant\<close>

lemma token_backed_initial: "token_backed (store (initialWorld ls))"
  by (cases "ls ''authToken''") (simp_all add: token_backed_def initialWorld_def initialState_def or_null_def)

lemma token_backed_step: "token_backed (store w) \<Longrightarrow> token_backed (store (step w a))"
  by (cases a) (auto simp add: token_backed_def action_defs split: sum.splits option.splits)

lemma token_backed_run: "token_backed (store w) \<Longrightarrow> token_backed (store (run acts w))"
  unfolding run_def
proof (induction acts arbitrary: w)
  case Nil
  then show ?case by simp
next
  case (Cons a acts)
  from Cons.prems have "token_backed (store (step w a))" by (rule token_backed_step)
  then have "token_backed (store (foldl step (step w a) acts))" by (rule Cons.IH)
  then show ?case by simp
qed

lemma synced_initial: "\<not> truthy (ls ''authToken'') \<Longrightarrow> synced (initialWorld ls)"
  by (simp add: synced_def session_consistent_def initialWorld_def initialState_def or_null_def)

lemma synced_step: "synced w \<Longrightarrow> token_given a \<Longrightarrow> synced (step w a)"
proof (cases a)
  case (Login credentials res)
  assume "synced w" "token_given a"
  with Login show ?thesis
    by (cases res) (simp_all add: synced_def session_consistent_def login_def login_pending_def auth_settled_def)
next
  case (SignUp e p f r res)
  assume "synced w" "token_given a"
  with SignUp show ?thesis
    by (cases res) (simp_all add: synced_def session_consistent_def signUp_def signUp_pending_def auth_settled_def)
next
  case Logout
  then show ?thesis
    by (simp add: synced_def session_consistent_def logout_def)
next
  case (CheckAuth res)
  assume "synced w"
  with CheckAuth show ?thesis
    by (cases res; cases "localStorage w ''authToken''")
      (auto simp add: synced_def session_consistent_def checkAuth_def checkAuth_pending_def checkAuth_settled_def)
qed

lemma synced_run: "synced w \<Longrightarrow> list_all token_given acts \<Longrightarrow> synced (run acts w)"
  unfolding run_def
proof (induction acts arbitrary: w)
  case Nil
  then show ?case by simp
next
  case (Cons a acts)
  from Cons.prems have "synced (step w a)" by (simp add: synced_step)
  moreover from Cons.prems have "list_all token_given acts" by simp
  ultimately have "synced (foldl step (step w a) acts)" by (rule Cons.IH)
  then show ?case by simp
qed

lemma consistent_after_success:
  "session_consistent (store (snd (auth_settled (Inr data) w)))"
  by (simp add: session_consistent_def auth_settled_def)

lemma consistent_after_checkAuth:
  "truthy (localStorage w ''authToken'') \<Longrightarrow> session_consistent (store (checkAuth res w))"
  by (cases res; cases "localStorage w ''authToken''")
    (simp_all add: session_consistent_def checkAuth_def checkAuth_pending_def checkAuth_settled_def)



lemma hydrated_initial: "truthy (ls ''authToken'') \<Longrightarrow> hydrated (initialWorld ls)"
  by (simp add: hydrated_def initialWorld_def initialState_def or_null_def)

lemma hydrated_rejected_step: "hydrated w \<Longrightarrow> rejected a \<Longrightarrow> hydrated (step w a)"
  by (cases a rule: rejected.cases) (simp_all add: hydrated_def action_defs)

lemma hydrated_settling_step:
  assumes "hydrated w" and "token_given a" and "\<not> rejected a"
  shows "synced (step w a)"
proof (cases a)
  case (Login credentials res)
  with assms show ?thesis
    by (cases res) (simp_all add: synced_def session_consistent_def login_def login_pending_def auth_settled_def)
next
  case (SignUp e p f r res)
  with assms show ?thesis
    by (cases res) (simp_all add: synced_def session_consistent_def signUp_def signUp_pending_def auth_settled_def)
next
  case Logout
  then show ?thesis by (simp add: synced_def session_consistent_def logout_def)
next
  case (CheckAuth res)
  with assms(1) show ?thesis
    by (cases res; cases "localStorage w ''authToken''")
      (auto simp add: hydrated_def synced_def session_consistent_def checkAuth_def
        checkAuth_pending_def checkAuth_settled_def)
qed

lemma hydrated_run_rejected:
  "hydrated w \<Longrightarrow> list_all rejected acts \<Longrightarrow> hydrated (run acts w)"
  unfolding run_def
proof (induction acts arbitrary: w)
  case Nil
  then show ?case by simp
next
  case (Cons a acts)
  from Cons.prems have "hydrated (step w a)" by (simp add: hydrated_rejected_step)
  moreover from Cons.prems have "list_all rejected acts" by simp
  ultimately have "hydrated (foldl step (step w a) acts)" by (rule Cons.IH)
  then show ?case by simp
qed

lemma hydrated_run_settled:
  "hydrated w \<Longrightarrow> list_all token_given acts \<Longrightarrow> \<not> list_all rejected acts \<Longrightarrow> synced (run acts w)"
proof (induction acts arbitrary: w)
  case Nil
  then show ?case by simp
next
  case (Cons a acts)
  show ?case
  proof (cases "rejected a")
    case True
    with Cons.prems have "hydrated (step w a)" "list_all token_given acts" "\<not> list_all rejected acts"
      by (simp_all add: hydrated_rejected_step)
    then have "synced (run acts (step w a))" by (rule Cons.IH)
    then show ?thesis by (simp add: run_def)
  next
    case False
    with Cons.prems have "synced (step w a)" by (simp add: hydrated_settling_step)
    moreover from Cons.prems have "list_all token_given acts" by simp
    ultimately have "synced (run acts (step w a))" by (rule synced_run)
    then show ?thesis by (simp add: run_def)
  qed
qed

lemma consistent_unless_hydrated:
  assumes "list_all token_given acts" and "\<not> (truthy (ls ''authToken'') \<and> list_all rejected acts)"
  shows "session_consistent (store (run acts (initialWorld ls)))"
proof (cases "truthy (ls ''authToken'')")
  case True
  then have "hydrated (initialWorld ls)" by (rule hydrated_initial)
  moreover from True assms(2) have "\<not> list_all rejected acts" by simp
  ultimately have "synced (run acts (initialWorld ls))" using assms(1) by (simp add: hydrated_run_settled)
  then show ?thesis by (simp add: synced_def)
next
  case False
  then have "synced (initialWorld ls)" by (rule synced_initial)
  with assms(1) have "synced (run acts (initialWorld ls))" by (simp add: synced_run)
  then show ?thesis by (simp add: synced_def)
qed

lemma synced_after_logout: "synced (step w Logout)"
  by (simp add: synced_def session_consistent_def logout_def)

lemma synced_after_login:
  "access_token data \<noteq> [] \<Longrightarrow> synced (step w (Login credentials (Inr data)))"
  by (simp add: synced_def session_consistent_def login_def login_pending_def auth_settled_def)

lemma synced_after_signUp:
  "access_token data \<noteq> [] \<Longrightarrow> synced (step w (SignUp email' password' fullName referralCode (Inr data)))"
  by (simp add: synced_def session_consistent_def signUp_def signUp_pending_def auth_settled_def)

lemma synced_after_checkAuth:
  "truthy (localStorage w ''authToken'') \<Longrightarrow> synced (step w (CheckAuth res))"
  by (cases res; cases "localStorage w ''authToken''")
    (simp_all add: synced_def session_consistent_def checkAuth_def checkAuth_pending_def
      checkAuth_settled_def)

lemma consistent_after_settling:
  "synced (step w a) \<Longrightarrow> list_all token_given acts \<Longrightarrow> session_consistent (store (run (a # acts) w))"
proof -
  assume "synced (step w a)" "list_all token_given acts"
  then have "synced (run acts (step w a))" by (rule synced_run)
  then show ?thesis by (simp add: run_def synced_def)
qed

lemma run_Cons: "run (a # acts) w = run acts (step w a)"
  by (simp add: run_def)

lemma empty_token_breaks_equivalence:
  "\<not> session_consistent (store (run
      [Login sample_credentials (Inr (sample_response\<lparr>access_token := ''''\<rparr>)),
       CheckAuth (Inr (sample_user ''user''))] (initialWorld Map.empty)))"
  by (simp add: run_def action_defs initialWorld_def initialState_def or_null_def
      session_consistent_def sample_response_def)

lemma storage_run_rejected:
  "list_all rejected acts \<Longrightarrow> localStorage (run acts w) = localStorage w"
  unfolding run_def
proof (induction acts arbitrary: w)
  case Nil
  then show ?case by simp
next
  case (Cons a acts)
  from Cons.prems have "rejected a" by simp
  then have "localStorage (step w a) = localStorage w"
    by (cases a rule: rejected.cases) (simp_all add: action_defs)
  moreover from Cons.prems have "localStorage (foldl step (step w a) acts) = localStorage (step w a)"
    by (simp add: Cons.IH)
  ultimately show ?case by simp
qed

lemma hydrated_after_rejected:
  assumes "truthy (ls ''authToken'')" and "list_all rejected acts"
  shows "isAuthenticated (store (run acts (initialWorld ls))) \<and>
     token (store (run acts (initialWorld ls))) = ls ''authToken'' \<and>
     user (store (run acts (initialWorld ls))) = None \<and>
     \<not> session_consistent (store (run acts (initialWorld ls)))"
proof -
  from assms have h: "hydrated (run acts (initialWorld ls))"
    by (simp add: hydrated_initial hydrated_run_rejected)
  from assms(2) have "localStorage (run acts (initialWorld ls)) = ls"
    by (simp add: storage_run_rejected initialWorld_def)
  with h show ?thesis
    by (simp add: hydrated_def session_consistent_def)
qed

text \<open>
  Counterexample to claim C1 as stated: the initial state of a browser that remembers a
  token is authenticated and has the token, and has no current user.
\<close>

theorem hydrated_session_has_token_without_user:
  "isAuthenticated (store (run [] (initialWorld sample_storage))) \<and>
   token (store (run [] (initialWorld sample_storage))) = Some ''abc'' \<and>
   user (store (run [] (initialWorld sample_storage))) = None \<and>
   \<not> session_consistent (store (run [] (initialWorld sample_storage)))"
  by (simp add: run_def initialWorld_def initialState_def or_null_def sample_storage_def
      session_consistent_def)

text \<open>
  Claim C1, amended. In the initial state and after any sequence of completed
  \<^verbatim>\<open>login\<close>, \<^verbatim>\<open>signUp\<close>, \<^verbatim>\<open>logout\<close> and \<^verbatim>\<open>checkAuth\<close>, an authenticated session
  has a token and a session with a current user has a token. When the browser remembers
  a token at the start, the initial state and every state reached from it by rejected
  logins and registrations alone is authenticated, holds the stored token and has no
  current user. In every other reachable state, provided the server never answers with
  an empty access token, the session is authenticated if and only if both token and
  current user are present: so it is from the check at start onwards, whatever the
  storage held. From any state at all, the equivalence holds right after a successful
  \<^verbatim>\<open>login\<close> or \<^verbatim>\<open>signUp\<close>, after \<^verbatim>\<open>logout\<close> and after a \<^verbatim>\<open>checkAuth\<close> that found a
  stored token, and (for non-empty access tokens) it keeps holding after every further
  operation.
\<close>

theorem session_token_invariant:
  "(isAuthenticated (store (run acts (initialWorld ls))) \<longrightarrow>
      token (store (run acts (initialWorld ls))) \<noteq> None) \<and>
   (user (store (run acts (initialWorld ls))) \<noteq> None \<longrightarrow>
      token (store (run acts (initialWorld ls))) \<noteq> None) \<and>
   (truthy (ls ''authToken'') \<and> list_all rejected acts \<longrightarrow>
      isAuthenticated (store (run acts (initialWorld ls))) \<and>
      token (store (run acts (initialWorld ls))) = ls ''authToken'' \<and>
      user (store (run acts (initialWorld ls))) = None \<and>
      \<not> session_consistent (store (run acts (initialWorld ls)))) \<and>
   (list_all token_given acts \<and> \<not> (truthy (ls ''authToken'') \<and> list_all rejected acts) \<longrightarrow>
      session_consistent (store (run acts (initialWorld ls)))) \<and>
   (list_all token_given acts \<longrightarrow>
      session_consistent (store (run (CheckAuth res # acts) (initialWorld ls)))) \<and>
   session_consistent (store (snd (login credentials (Inr data) w))) \<and>
   session_consistent (store (snd (signUp email' password' fullName referralCode (Inr data) w))) \<and>
   session_consistent (store (logout w)) \<and>
   (truthy (localStorage w ''authToken'') \<longrightarrow> session_consistent (store (checkAuth res w))) \<and>
   (list_all token_given acts \<longrightarrow> session_consistent (store (run (Logout # acts) w))) \<and>
   (access_token data \<noteq> [] \<and> list_all token_given acts \<longrightarrow>
      session_consistent (store (run (Login credentials (Inr data) # acts) w)) \<and>
      session_consistent (store (run (SignUp email' password' fullName referralCode (Inr data) # acts) w))) \<and>
   (truthy (localStorage w ''authToken'') \<and> list_all token_given acts \<longrightarrow>
      session_consistent (store (run (CheckAuth res # acts) w)))"
proof -
  have "token_backed (store (run acts (initialWorld ls)))"
    by (rule token_backed_run) (rule token_backed_initial)
  then have a: "isAuthenticated (store (run acts (initialWorld ls))) \<longrightarrow>
        token (store (run acts (initialWorld ls))) \<noteq> None"
    and b: "user (store (run acts (initialWorld ls))) \<noteq> None \<longrightarrow>
        token (store (run acts (initialWorld ls))) \<noteq> None"
    by (simp_all add: token_backed_def)
  have c: "truthy (ls ''authToken'') \<and> list_all rejected acts \<longrightarrow>
      isAuthenticated (store (run acts (initialWorld ls))) \<and>
      token (store (run acts (initialWorld ls))) = ls ''authToken'' \<and>
      user (store (run acts (initialWorld ls))) = None \<and>
      \<not> session_consistent (store (run acts (initialWorld ls)))"
    using hydrated_after_rejected [of ls acts] by blast
  have d: "list_all token_given acts \<and> \<not> (truthy (ls ''authToken'') \<and> list_all rejected acts) \<longrightarrow>
      session_consistent (store (run acts (initialWorld ls)))"
    using consistent_unless_hydrated [of acts ls] by blast
  have e: "list_all token_given acts \<longrightarrow>
      session_consistent (store (run (CheckAuth res # acts) (initialWorld ls)))"
    using consistent_unless_hydrated [of "CheckAuth res # acts" ls] by simp
  have f: "session_consistent (store (snd (login credentials (Inr data) w)))"
    unfolding login_def by (rule consistent_after_success)
  have g: "session_consistent (store (snd (signUp email' password' fullName referralCode (Inr data) w)))"
    unfolding signUp_def by (rule consistent_after_success)
  have h: "session_consistent (store (logout w))"
    by (simp add: session_consistent_def logout_def)
  have i: "truthy (localStorage w ''authToken'') \<longrightarrow> session_consistent (store (checkAuth res w))"
    by (simp add: consistent_after_checkAuth)
  have j: "list_all token_given acts \<longrightarrow> session_consistent (store (run (Logout # acts) w))"
    using consistent_after_settling [OF synced_after_logout] by blast
  have k: "access_token data \<noteq> [] \<and> list_all token_given acts \<longrightarrow>
      session_consistent (store (run (Login credentials (Inr data) # acts) w)) \<and>
      session_consistent (store (run (SignUp email' password' fullName referralCode (Inr data) # acts) w))"
    using consistent_after_settling [OF synced_after_login] consistent_after_settling [OF synced_after_signUp]
    by blast
  have l: "truthy (localStorage w ''authToken'') \<and> list_all token_given acts \<longrightarrow>
      session_consistent (store (run (CheckAuth res # acts) w))"
    using consistent_after_settling [OF synced_after_checkAuth] by blast
  from a b c d e f g h i j k l show ?thesis by (intro conjI)
qed

theorem session_token_invariant_witness:
  "(isAuthenticated (store (run [Login sample_credentials (Inl sample_error)] (initialWorld sample_storage))) \<and>
    token (store (run [Login sample_credentials (Inl sample_error)] (initialWorld sample_storage))) = Some ''abc'' \<and>
    user (store (run [Login sample_credentials (Inl sample_error)] (initialWorld sample_storage))) = None) \<and>
   session_consistent (store (run [CheckAuth (Inr (sample_user ''user'')),
      Login sample_credentials (Inl sample_error)] (initialWorld sample_storage))) \<and>
   (isAuthenticated (store (run sample_actions (initialWorld Map.empty))) \<and>
    user (store (run sample_actions (initialWorld Map.empty))) \<noteq> None \<and>
    token (store (run sample_actions (initialWorld Map.empty))) \<noteq> None \<and>
    session_consistent (store (run sample_actions (initialWorld Map.empty)))) \<and>
   session_consistent (store (checkAuth (Inl sample_error) sample_world)) \<and>
   session_consistent (store (run (Logout # sample_actions) sample_world)) \<and>
   session_consistent (store (run (Login sample_credentials (Inr sample_response) # sample_actions) sample_world)) \<and>
   session_consistent (store (run (CheckAuth (Inl sample_error) # sample_actions) sample_world))"
proof -
  have s: "truthy (sample_storage ''authToken'')" "sample_storage ''authToken'' = Some ''abc''"
    "list_all rejected [Login sample_credentials (Inl sample_error)]"
    "list_all token_given [Login sample_credentials (Inl sample_error)]"
    by (simp_all add: sample_storage_def)
  have h: "\<not> truthy ((Map.empty :: string \<rightharpoonup> string) ''authToken'')" "list_all token_given sample_actions"
    "truthy (localStorage sample_world ''authToken'')" "access_token sample_response \<noteq> []"
    by (simp_all add: sample_actions_def sample_response_def sample_world_def sample_storage_def)
  have i: "isAuthenticated (store (run sample_actions (initialWorld Map.empty)))"
    "user (store (run sample_actions (initialWorld Map.empty))) \<noteq> None"
    by (simp_all add: sample_actions_def run_def action_defs initialWorld_def initialState_def
        sample_response_def)
  have 1: "isAuthenticated (store (run [Login sample_credentials (Inl sample_error)] (initialWorld sample_storage))) \<and>
    token (store (run [Login sample_credentials (Inl sample_error)] (initialWorld sample_storage))) = Some ''abc'' \<and>
    user (store (run [Login sample_credentials (Inl sample_error)] (initialWorld sample_storage))) = None"
    using s session_token_invariant [where acts = "[Login sample_credentials (Inl sample_error)]"
        and ls = sample_storage]
    by simp
  have 2: "session_consistent (store (run [CheckAuth (Inr (sample_user ''user'')),
      Login sample_credentials (Inl sample_error)] (initialWorld sample_storage)))"
    using s session_token_invariant [where acts = "[Login sample_credentials (Inl sample_error)]"
        and ls = sample_storage and res = "Inr (sample_user ''user'')"]
    by simp
  have 3: "isAuthenticated (store (run sample_actions (initialWorld Map.empty))) \<and>
    user (store (run sample_actions (initialWorld Map.empty))) \<noteq> None \<and>
    token (store (run sample_actions (initialWorld Map.empty))) \<noteq> None \<and>
    session_consistent (store (run sample_actions (initialWorld Map.empty)))"
    using h i session_token_invariant [where acts = sample_actions and ls = Map.empty]
    by simp
  have 4: "session_consistent (store (checkAuth (Inl sample_error) sample_world)) \<and>
   session_consistent (store (run (Logout # sample_actions) sample_world)) \<and>
   session_consistent (store (run (Login sample_credentials (Inr sample_response) # sample_actions) sample_world)) \<and>
   session_consistent (store (run (CheckAuth (Inl sample_error) # sample_actions) sample_world))"
    using h session_token_invariant [where acts = sample_actions and w = sample_world
        and res = "Inl sample_error" and data = sample_response and credentials = sample_credentials]
    by simp
  from 1 2 3 4 show ?thesis by simp
qed

end
